theory Spec2Isabelle
  imports Main
begin

section \<open>JavaScript values and strings\<close>

text \<open>
  The handlers receive JSON: a request body is an object whose properties are JSON
  values, and a property that is missing reads as \<open>undefined\<close>. Numbers are kept to
  the integers; a string is a list of characters (code points below 256).
\<close>

datatype jsval =
    JUndefined
  | JNull
  | JBool bool
  | JNum int
  | JStr string
  | JArr "jsval list"
  | JObj "(string \<times> jsval) list"

text \<open>The test \<open>!v\<close> of the source is \<open>\<not> truthy v\<close>.\<close>

fun truthy :: "jsval \<Rightarrow> bool" where
  "truthy JUndefined = False"
| "truthy JNull = False"
| "truthy (JBool b) = b"
| "truthy (JNum n) = (n \<noteq> 0)"
| "truthy (JStr s) = (s \<noteq> [])"
| "truthy (JArr xs) = True"
| "truthy (JObj fs) = True"

text \<open>
  A property that the interface documents as a string is a \<open>string option\<close>:
  \<open>None\<close> when the property is missing. \<open>!v\<close> holds for a missing property and for
  the empty string.
\<close>

fun present :: "string option \<Rightarrow> bool" where
  "present None = False"
| "present (Some s) = (s \<noteq> [])"

fun strOf :: "string option \<Rightarrow> string" where
  "strOf None = []"
| "strOf (Some s) = s"

text \<open>
  \<open>String.prototype.trim\<close> removes white space and line terminators from both ends:
  tab, line feed, vertical tab, form feed, carriage return, space and no-break space
  are the ones below code point 256.
\<close>

definition isSpace :: "char \<Rightarrow> bool" where
  "isSpace c = (of_char c \<in> {9, 10, 11, 12, 13, 32, 160 :: nat})"

definition trim :: "string \<Rightarrow> string" where
  "trim s = rev (dropWhile isSpace (rev (dropWhile isSpace s)))"

text \<open>
  \<open>String.prototype.toLowerCase\<close> on code points below 256: the ASCII capitals and
  the Latin-1 capitals (192 to 222, the multiplication sign 215 excepted) move up by 32.
\<close>

definition toLowerChar :: "char \<Rightarrow> char" where
  "toLowerChar c =
     (let n = (of_char c :: nat)
      in if (65 \<le> n \<and> n \<le> 90) \<or> (192 \<le> n \<and> n \<le> 222 \<and> n \<noteq> 215)
         then char_of (n + 32) else c)"

definition toLowerCase :: "string \<Rightarrow> string" where
  "toLowerCase s = map toLowerChar s"

text \<open>
  \<open>validator.escape\<close> replaces the characters \<open>&\<close>, \<open>"\<close>, \<open>'\<close>, \<open><\<close>, \<open>>\<close>,
  \<open>/\<close>, backslash and backquote by HTML entities. The ampersand is replaced first, so
  the chain of replacements is a character-by-character substitution.
\<close>

definition escapeChar :: "char \<Rightarrow> string" where
  "escapeChar c =
     (if c = CHR ''&'' then ''&amp;''
      else if c = CHR 0x22 then ''&quot;''
      else if c = CHR 0x27 then ''&#x27;''
      else if c = CHR ''<'' then ''&lt;''
      else if c = CHR ''>'' then ''&gt;''
      else if c = CHR ''/'' then ''&#x2F;''
      else if c = CHR 0x5C then ''&#x5C;''
      else if c = CHR 0x60 then ''&#96;''
      else [c])"

definition escape :: "string \<Rightarrow> string" where
  "escape s = concat (map escapeChar s)"

subsection \<open>utils/SanitizeInput.js\<close>

text \<open>
  \<^verbatim>\<open>
  export const sanitizeInput = (input) => {
    if (typeof input === 'string') {
      return validator.escape(input.trim());
    }
    return input;
  };
  \<close>
\<close>

fun sanitizeInput :: "jsval \<Rightarrow> jsval" where
  "sanitizeInput (JStr s) = JStr (escape (trim s))"
| "sanitizeInput v = v"

text \<open>
  The sanitization boundary as the specification words it: string leaves are trimmed
  and escaped, object and array shapes are traversed, every other leaf is returned
  as it is.
\<close>

fun sanitizeDeep :: "jsval \<Rightarrow> jsval" where
  "sanitizeDeep (JStr s) = JStr (escape (trim s))"
| "sanitizeDeep (JArr xs) = JArr (map sanitizeDeep xs)"
| "sanitizeDeep (JObj fs) = JObj (map (\<lambda>(k, v). (k, sanitizeDeep v)) fs)"
| "sanitizeDeep v = v"

section \<open>The document store\<close>

subsection \<open>Object identifiers\<close>

text \<open>
  An ObjectId is twelve bytes; it is kept here in its canonical rendering, the
  lower-case hexadecimal string of 24 characters. The driver's constructor accepts a
  string exactly when it has 24 hexadecimal digits, in either case.
\<close>

type_synonym oid = string

definition isHexDigit :: "char \<Rightarrow> bool" where
  "isHexDigit c =
     (let n = (of_char c :: nat)
      in (48 \<le> n \<and> n \<le> 57) \<or> (65 \<le> n \<and> n \<le> 70) \<or> (97 \<le> n \<and> n \<le> 102))"

definition validHexString :: "string \<Rightarrow> bool" where
  "validHexString s = (length s = 24 \<and> list_all isHexDigit s)"

text \<open>
  \<open>mongoose.Types.ObjectId.isValid(v)\<close> answers whether the ObjectId constructor
  accepts \<open>v\<close>. The constructor takes a number (a creation time), a string of 24
  hexadecimal digits, or an object with a property \<open>id\<close>, whose value it then reads in
  place of the object; \<open>null\<close> and \<open>undefined\<close> are refused by \<open>isValid\<close> itself, and
  every other value by the constructor. (Byte buffers and objects with a
  \<open>toHexString\<close> method do not occur in JSON.)
\<close>

fun ObjectId_isValid :: "jsval \<Rightarrow> bool" where
  "ObjectId_isValid JUndefined = False"
| "ObjectId_isValid JNull = False"
| "ObjectId_isValid (JNum n) = True"
| "ObjectId_isValid (JStr s) = validHexString s"
| "ObjectId_isValid (JObj fs) =
     (case map_of fs ''id'' of
        Some (JStr s) \<Rightarrow> validHexString s
      | _ \<Rightarrow> False)"
| "ObjectId_isValid (JBool b) = False"
| "ObjectId_isValid (JArr xs) = False"

text \<open>
  A query or a document that names an ObjectId by a string casts the string; a string
  the constructor refuses makes the operation throw a CastError (\<open>None\<close> here).
\<close>

definition castObjectId :: "string \<Rightarrow> oid option" where
  "castObjectId s = (if validHexString s then Some (toLowerCase s) else None)"

fun castObjectIds :: "string list \<Rightarrow> oid list option" where
  "castObjectIds [] = Some []"
| "castObjectIds (s # ss) =
     (case castObjectId s of
        None \<Rightarrow> None
      | Some k \<Rightarrow> (case castObjectIds ss of None \<Rightarrow> None | Some ks \<Rightarrow> Some (k # ks)))"

subsection \<open>Collections\<close>

text \<open>
  A collection is the list of its documents in insertion order; \<open>idf\<close> reads the
  \<open>_id\<close> of a document. The store keeps \<open>_id\<close> unique in every collection:
  an insertion under an \<open>_id\<close> that is taken fails with a duplicate-key error.
\<close>

definition findOne :: "('d \<Rightarrow> bool) \<Rightarrow> 'd list \<Rightarrow> 'd option" where
  "findOne P coll = List.find P coll"

definition findById :: "('d \<Rightarrow> oid) \<Rightarrow> oid \<Rightarrow> 'd list \<Rightarrow> 'd option" where
  "findById idf i coll = findOne (\<lambda>d. idf d = i) coll"

definition findMany :: "('d \<Rightarrow> bool) \<Rightarrow> 'd list \<Rightarrow> 'd list" where
  "findMany P coll = filter P coll"

definition insertDoc :: "('d \<Rightarrow> oid) \<Rightarrow> 'd \<Rightarrow> 'd list \<Rightarrow> 'd list option" where
  "insertDoc idf d coll = (if idf d \<in> set (map idf coll) then None else Some (coll @ [d]))"

fun updateOne :: "('d \<Rightarrow> bool) \<Rightarrow> ('d \<Rightarrow> 'd) \<Rightarrow> 'd list \<Rightarrow> 'd list" where
  "updateOne P f [] = []"
| "updateOne P f (d # ds) = (if P d then f d # ds else d # updateOne P f ds)"

definition updateMany :: "('d \<Rightarrow> bool) \<Rightarrow> ('d \<Rightarrow> 'd) \<Rightarrow> 'd list \<Rightarrow> 'd list" where
  "updateMany P f coll = map (\<lambda>d. if P d then f d else d) coll"

fun deleteOne :: "('d \<Rightarrow> bool) \<Rightarrow> 'd list \<Rightarrow> 'd list" where
  "deleteOne P [] = []"
| "deleteOne P (d # ds) = (if P d then ds else d # deleteOne P ds)"

definition uniqueIds :: "('d \<Rightarrow> oid) \<Rightarrow> 'd list \<Rightarrow> bool" where
  "uniqueIds idf coll = distinct (map idf coll)"

subsection \<open>Documents\<close>

text \<open>models/company.model.js; the timestamps of the documents are left out.\<close>

record company =
  company_id :: oid
  company_name :: string
  company_description :: string
  company_website :: string
  company_location :: string
  company_logo :: "string option"
  company_jobs :: "oid list"
  company_userId :: "oid list"

text \<open>The job category model: a name and the list of the jobs filed under it.\<close>

record jobCategory =
  category_id :: oid
  category_name :: string
  category_jobs :: "oid list"

text \<open>
  Modelled from the spec: the Job document (models/job.model.js is not among the
  sources). Its attributes are title, description, location, experience, salary,
  jobOpenings, requirements and jobType, kept as the JSON values the request gave;
  its references are \<open>company\<close>, \<open>categories\<close>, \<open>postedBy\<close> and \<open>applicants\<close>.
\<close>

record job =
  job_id :: oid
  job_title :: jsval
  job_description :: jsval
  job_company :: oid
  job_location :: jsval
  job_experience :: jsval
  job_salary :: jsval
  job_jobOpenings :: jsval
  job_requirements :: jsval
  job_jobType :: jsval
  job_categories :: "oid list"
  job_postedBy :: oid
  job_applicants :: "oid list"

text \<open>The application model: \<open>status\<close> defaults to \<open>Applied\<close>, \<open>coverLetter\<close> is trimmed.\<close>

record application =
  app_id :: oid
  app_job :: oid
  app_applicant :: oid
  app_resume :: string
  app_status :: string
  app_coverLetter :: "string option"

text \<open>The user model; the profile sub-document is kept as the JSON object it was given as.\<close>

record user =
  user_id :: oid
  user_name :: string
  user_email :: string
  user_phone :: string
  user_password :: string
  user_role :: string
  user_profile :: "(string \<times> jsval) list"

record db =
  users :: "user list"
  companies :: "company list"
  jobCategories :: "jobCategory list"
  jobs :: "job list"
  applications :: "application list"

subsection \<open>Responses\<close>

text \<open>
  Every handler answers \<open>res.status(n).json({success, message, data})\<close>; the
  \<open>error\<close> property of a failure (the text of the exception) is left out.
\<close>

record 'a response =
  status :: nat
  success :: bool
  message :: string
  payload :: "'a option"

definition respond :: "nat \<Rightarrow> bool \<Rightarrow> string \<Rightarrow> 'a option \<Rightarrow> 'a response" where
  "respond n ok msg d = \<lparr>status = n, success = ok, message = msg, payload = d\<rparr>"

text \<open>The \<open>catch\<close> block that closes the handlers of companies, jobs and applications.\<close>

abbreviation internalError :: "'a response" where
  "internalError \<equiv> respond 500 False ''Internal Server Error. Please try again later.'' None"

section \<open>controllers/company.controller.js\<close>

text \<open>
  \<open>getCompanyById\<close>: the identifier \<open>ident\<close> is the route parameter \<open>id\<close>, a string. The validity
  test is applied to the object \<open>{ id }\<close>, not to the string.
  \<^verbatim>\<open>
    const id = req.params.id;
    if (!mongoose.Types.ObjectId.isValid({ id })) { return res.status(400) ... }
    const company = await Company.findById(id);
    if (!company) { return res.status(404) ... }
    return res.status(200).json({ ..., data: company });
  \<close>
\<close>

definition getCompanyById :: "db \<Rightarrow> string \<Rightarrow> company response" where
  "getCompanyById d ident =
     (if \<not> ObjectId_isValid (JObj [(''id'', JStr ident)])
      then respond 400 False ''Invalid Company ID'' None
      else case castObjectId ident of
        None \<Rightarrow> internalError
      | Some cid \<Rightarrow>
          (case findById company_id cid (companies d) of
             None \<Rightarrow> respond 404 False ''Company not found'' None
           | Some c \<Rightarrow> respond 200 True ''Company found successfully'' (Some c)))"

text \<open>
  \<open>createCompany\<close>: \<open>user\<close> is \<open>req.user._id\<close>, the subject of the verified token;
  the body gives \<open>name\<close>, \<open>description\<close>, \<open>website\<close>, \<open>location\<close> and \<open>userId\<close>;
  \<open>newId\<close> is the \<open>_id\<close> the driver generates for the new document.
  \<^verbatim>\<open>
    if (!name || !description || !website || !location || !userId) { return res.status(400) ... }
    const sanitizedInputs = sanitizeInput({ name, description, website, location, userId: user });
    const existingCompany = await Company.findOne({ name: sanitizedInputs.name });
    if (existingCompany) { return res.status(400) ... }
    const company = await Company.create(sanitizedInputs);
    return res.status(201).json({ ..., data: company });
  \<close>
  \<open>sanitizeInput\<close> is given an object and returns it as it is. The schema trims
  \<open>website\<close> and casts \<open>userId\<close> to a list of one ObjectId.
\<close>

record companyBody =
  cb_name :: "string option"
  cb_description :: "string option"
  cb_website :: "string option"
  cb_location :: "string option"
  cb_userId :: jsval

definition createCompany :: "oid \<Rightarrow> db \<Rightarrow> string \<Rightarrow> companyBody \<Rightarrow> company response \<times> db" where
  "createCompany newId d user body =
     (if \<not> present (cb_name body) \<or> \<not> present (cb_description body)
         \<or> \<not> present (cb_website body) \<or> \<not> present (cb_location body)
         \<or> \<not> truthy (cb_userId body)
      then (respond 400 False ''All fields are required'' None, d)
      else case findOne (\<lambda>c. company_name c = strOf (cb_name body)) (companies d) of
        Some existingCompany \<Rightarrow>
          (respond 400 False
             (''Company with name '' @ strOf (cb_name body) @ '' already exists.'') None, d)
      | None \<Rightarrow>
          (case castObjectId user of
             None \<Rightarrow> (internalError, d)
           | Some uid \<Rightarrow>
               (let c = \<lparr>company_id = newId,
                         company_name = strOf (cb_name body),
                         company_description = strOf (cb_description body),
                         company_website = trim (strOf (cb_website body)),
                         company_location = strOf (cb_location body),
                         company_logo = None,
                         company_jobs = [],
                         company_userId = [uid]\<rparr>
                in case insertDoc company_id c (companies d) of
                     None \<Rightarrow> (internalError, d)
                   | Some cs \<Rightarrow>
                       (respond 201 True ''Company created successfully'' (Some c),
                        d\<lparr>companies := cs\<rparr>))))"

section \<open>controllers/job_categories.controller.js\<close>

text \<open>
  \<open>createJobCategory\<close> and \<open>deleteJobCategory\<close>, the handlers that add a document to
  the collection of job categories and remove one from it. \<open>name\<close> is the \<open>name\<close>
  property of the body, \<open>ident\<close> the route parameter \<open>id\<close>.
  \<^verbatim>\<open>
    if (!name) { return res.status(400) ... }
    const existingCategory = await JobCategory.findOne({ name: sanitizedInputs.name });
    if (existingCategory) { return res.status(409) ... }
    const newJobCategory = await JobCategory.create(sanitizedInputs);
    return res.status(201).json({ ..., data: newJobCategory });
  \<close>
  \<^verbatim>\<open>
    if (!mongoose.Types.ObjectId.isValid(id)) { return res.status(400) ... }
    const deletedJobCategory = await JobCategory.findByIdAndDelete(id);
    if (!deletedJobCategory) { return res.status(404) ... }
    return res.status(200).json({ success: true, message: ... });
  \<close>
\<close>

definition createJobCategory :: "oid \<Rightarrow> db \<Rightarrow> string option \<Rightarrow> jobCategory response \<times> db" where
  "createJobCategory newId d name =
     (if \<not> present name
      then (respond 400 False ''Category name is required'' None, d)
      else case findOne (\<lambda>c. category_name c = strOf name) (jobCategories d) of
        Some existingCategory \<Rightarrow>
          (respond 409 False
             (''Category with name '' @ [CHR 0x22] @ strOf name @ [CHR 0x22] @ '' already exists.'') None, d)
      | None \<Rightarrow>
          (let c = \<lparr>category_id = newId, category_name = strOf name, category_jobs = []\<rparr>
           in case insertDoc category_id c (jobCategories d) of
                None \<Rightarrow>
                  (respond 500 False ''Internal Server Error. Please, try again later.'' None, d)
              | Some cs \<Rightarrow>
                  (respond 201 True ''Job category created successfully'' (Some c),
                   d\<lparr>jobCategories := cs\<rparr>)))"

definition deleteJobCategory :: "db \<Rightarrow> string \<Rightarrow> unit response \<times> db" where
  "deleteJobCategory d ident =
     (if \<not> ObjectId_isValid (JStr ident)
      then (respond 400 False ''Invalid category ID'' None, d)
      else case castObjectId ident of
        None \<Rightarrow> (internalError, d)
      | Some cid \<Rightarrow>
          (case findById category_id cid (jobCategories d) of
             None \<Rightarrow> (respond 404 False ''Job category not found'' None, d)
           | Some deletedJobCategory \<Rightarrow>
               (respond 200 True (category_name deletedJobCategory @ '' deleted successfully.'') None,
                d\<lparr>jobCategories := deleteOne (\<lambda>c. category_id c = cid) (jobCategories d)\<rparr>)))"

section \<open>controllers/job.controller.js\<close>

text \<open>The update operators \<open>$push\<close> and \<open>$pull\<close> on a list of identifiers.\<close>

definition push :: "oid \<Rightarrow> oid list \<Rightarrow> oid list" where
  "push v xs = xs @ [v]"

definition pull :: "oid \<Rightarrow> oid list \<Rightarrow> oid list" where
  "pull v xs = filter (\<lambda>x. x \<noteq> v) xs"

text \<open>
  The body of a job posting. \<open>company\<close> is the identifier of a company, a string;
  \<open>categories\<close> is an array of identifiers; the other properties are any JSON values.
\<close>

record jobBody =
  jb_title :: jsval
  jb_description :: jsval
  jb_company :: "string option"
  jb_location :: jsval
  jb_experience :: jsval
  jb_salary :: jsval
  jb_jobOpenings :: jsval
  jb_requirements :: jsval
  jb_jobType :: jsval
  jb_categories :: "string list option"

fun listOf :: "'a list option \<Rightarrow> 'a list" where
  "listOf None = []"
| "listOf (Some xs) = xs"

text \<open>
  Modelled from the spec: \<open>Job.create\<close> under the Job schema, which is not among the
  sources. The references are cast to ObjectIds (\<open>postedBy\<close> from the caller's
  identifier), the document is validated by the schema, here the parameter
  \<open>jobSchema\<close>, and inserted under the generated \<open>_id\<close>. A cast that fails, a
  document the schema refuses and a duplicate key make \<open>create\<close> throw (\<open>None\<close>).
\<close>

definition Job_create ::
  "(jobBody \<Rightarrow> bool) \<Rightarrow> oid \<Rightarrow> oid \<Rightarrow> oid list \<Rightarrow> string \<Rightarrow> jobBody \<Rightarrow> job list
     \<Rightarrow> (job \<times> job list) option" where
  "Job_create jobSchema newId cid cids userId body coll =
     (case castObjectId userId of
        None \<Rightarrow> None
      | Some uid \<Rightarrow>
          if \<not> jobSchema body then None
          else (let j = \<lparr>job_id = newId,
                         job_title = jb_title body,
                         job_description = jb_description body,
                         job_company = cid,
                         job_location = jb_location body,
                         job_experience = jb_experience body,
                         job_salary = jb_salary body,
                         job_jobOpenings = jb_jobOpenings body,
                         job_requirements = jb_requirements body,
                         job_jobType = jb_jobType body,
                         job_categories = cids,
                         job_postedBy = uid,
                         job_applicants = []\<rparr>
                in case insertDoc job_id j coll of
                     None \<Rightarrow> None
                   | Some js \<Rightarrow> Some (j, js)))"

text \<open>
  \<open>postJob\<close>: \<open>userId\<close> is \<open>req.user._id\<close>.
  \<^verbatim>\<open>
    if (!title || !description || !company || !experience || !location ||
        !jobOpenings || !jobType || !categories || !userId) { return res.status(400) ... }
    const sanitizedInputs = sanitizeInput({ title, ..., categories, postedBy: userId });
    const validCompany = await Company.findById(sanitizedInputs.company);
    if (!validCompany) { return res.status(400) ... }
    const validCategories = await JobCategory.find({ _id: { $in: sanitizedInputs.categories } });
    if (validCategories.length !== sanitizedInputs.categories.length) { return res.status(400) ... }
    const newJob = await Job.create(sanitizedInputs);
    await JobCategory.updateMany({ _id: { $in: sanitizedInputs.categories } },
                                 { $push: { jobs: newJob._id } });
    await Company.findByIdAndUpdate(sanitizedInputs.company, { $push: { jobs: newJob._id } });
    return res.status(201).json({ ..., data: newJob });
  \<close>
  \<open>sanitizeInput\<close> is given an object and returns it as it is. The two queries cast
  the identifiers they are given; a CastError is caught by the handler's \<open>catch\<close>.
\<close>

definition postJob ::
  "(jobBody \<Rightarrow> bool) \<Rightarrow> oid \<Rightarrow> db \<Rightarrow> string \<Rightarrow> jobBody \<Rightarrow> job response \<times> db" where
  "postJob jobSchema newId d userId body =
     (if \<not> truthy (jb_title body) \<or> \<not> truthy (jb_description body)
         \<or> \<not> present (jb_company body) \<or> \<not> truthy (jb_experience body)
         \<or> \<not> truthy (jb_location body) \<or> \<not> truthy (jb_jobOpenings body)
         \<or> \<not> truthy (jb_jobType body) \<or> jb_categories body = None \<or> userId = []
      then (respond 400 False ''All required fields must be provided'' None, d)
      else case castObjectId (strOf (jb_company body)) of
        None \<Rightarrow> (internalError, d)
      | Some cid \<Rightarrow>
          (case findById company_id cid (companies d) of
             None \<Rightarrow> (respond 400 False ''Invalid company ID'' None, d)
           | Some validCompany \<Rightarrow>
               (case castObjectIds (listOf (jb_categories body)) of
                  None \<Rightarrow> (internalError, d)
                | Some cids \<Rightarrow>
                    (let validCategories =
                           findMany (\<lambda>c. category_id c \<in> set cids) (jobCategories d)
                     in if length validCategories \<noteq> length (listOf (jb_categories body))
                        then (respond 400 False ''One or more job categories are invalid'' None, d)
                        else case Job_create jobSchema newId cid cids userId body (jobs d) of
                          None \<Rightarrow> (internalError, d)
                        | Some (newJob, js) \<Rightarrow>
                            (respond 201 True ''Job created successfully'' (Some newJob),
                             d\<lparr>jobs := js,
                               jobCategories :=
                                 updateMany (\<lambda>c. category_id c \<in> set cids)
                                   (\<lambda>c. c\<lparr>category_jobs := push (job_id newJob) (category_jobs c)\<rparr>)
                                   (jobCategories d),
                               companies :=
                                 updateOne (\<lambda>c. company_id c = cid)
                                   (\<lambda>c. c\<lparr>company_jobs := push (job_id newJob) (company_jobs c)\<rparr>)
                                   (companies d)\<rparr>)))))"

text \<open>
  \<open>deleteJob\<close>: \<open>ident\<close> is the route parameter \<open>id\<close>.
  \<^verbatim>\<open>
    if (!mongoose.Types.ObjectId.isValid(id)) { return res.status(400) ... }
    const job = await Job.findByIdAndDelete(id);
    if (!job) { return res.status(404) ... }
    await JobCategory.updateMany({ jobs: id }, { $pull: { jobs: id } });
    await Company.updateMany({ jobs: id }, { $pull: { jobs: id } });
    return res.status(200).json({ success: true, message: "Job deleted successfully" });
  \<close>
\<close>

definition deleteJob :: "db \<Rightarrow> string \<Rightarrow> unit response \<times> db" where
  "deleteJob d ident =
     (if \<not> ObjectId_isValid (JStr ident)
      then (respond 400 False ''Invalid Job ID'' None, d)
      else case castObjectId ident of
        None \<Rightarrow> (internalError, d)
      | Some jid \<Rightarrow>
          (case findById job_id jid (jobs d) of
             None \<Rightarrow> (respond 404 False ''Job not found'' None, d)
           | Some job \<Rightarrow>
               (respond 200 True ''Job deleted successfully'' None,
                d\<lparr>jobs := deleteOne (\<lambda>j. job_id j = jid) (jobs d),
                  jobCategories :=
                    updateMany (\<lambda>c. jid \<in> set (category_jobs c))
                      (\<lambda>c. c\<lparr>category_jobs := pull jid (category_jobs c)\<rparr>) (jobCategories d),
                  companies :=
                    updateMany (\<lambda>c. jid \<in> set (company_jobs c))
                      (\<lambda>c. c\<lparr>company_jobs := pull jid (company_jobs c)\<rparr>) (companies d)\<rparr>)))"

section \<open>The application controller\<close>

record applyBody =
  ab_resume :: "string option"
  ab_coverLetter :: "string option"

text \<open>
  \<open>applyJob\<close>: \<open>userId\<close> is \<open>req.user._id\<close>, \<open>jobId\<close> the route parameter, \<open>newId\<close>
  the \<open>_id\<close> generated for the new application.
  \<^verbatim>\<open>
    const job = await Job.findById(jobId);
    if (!job) { return res.status(404) ... }
    const existingApplication = await Application.findOne({ applicant: userId, job: jobId });
    if (existingApplication) { return res.status(400) ... }
    const { resume, coverLetter } = req.body;
    if (!resume) { return res.status(400) ... }
    const sanitizedInputs = sanitizeInput({ resume, coverLetter, job: jobId, applicant: userId });
    const newApplication = await Application.create(sanitizedInputs);
    await Job.findByIdAndUpdate(jobId, { $push: { applicants: newApplication._id } }, ...);
    return res.status(201).json({ ..., data: newApplication });
  \<close>
\<close>

definition applyJob ::
  "oid \<Rightarrow> db \<Rightarrow> string \<Rightarrow> string \<Rightarrow> applyBody \<Rightarrow> application response \<times> db" where
  "applyJob newId d userId jobId body =
     (case castObjectId jobId of
        None \<Rightarrow> (internalError, d)
      | Some jid \<Rightarrow>
          (case findById job_id jid (jobs d) of
             None \<Rightarrow> (respond 404 False ''Job not found.'' None, d)
           | Some job \<Rightarrow>
               (case castObjectId userId of
                  None \<Rightarrow> (internalError, d)
                | Some uid \<Rightarrow>
                    (case findOne (\<lambda>a. app_applicant a = uid \<and> app_job a = jid) (applications d) of
                       Some existingApplication \<Rightarrow>
                         (respond 400 False ''You have already applied for this job.'' None, d)
                     | None \<Rightarrow>
                         if \<not> present (ab_resume body)
                         then (respond 400 False ''Resume is required.'' None, d)
                         else (let a = \<lparr>app_id = newId,
                                        app_job = jid,
                                        app_applicant = uid,
                                        app_resume = strOf (ab_resume body),
                                        app_status = ''Applied'',
                                        app_coverLetter = map_option trim (ab_coverLetter body)\<rparr>
                               in case insertDoc app_id a (applications d) of
                                    None \<Rightarrow> (internalError, d)
                                  | Some as \<Rightarrow>
                                      (respond 201 True ''Application submitted successfully.'' (Some a),
                                       d\<lparr>applications := as,
                                         jobs :=
                                           updateOne (\<lambda>j. job_id j = jid)
                                             (\<lambda>j. j\<lparr>job_applicants := push newId (job_applicants j)\<rparr>)
                                             (jobs d)\<rparr>))))))"

definition validStatuses :: "string list" where
  "validStatuses = [''Applied'', ''Reviewed'', ''Interview'', ''Offered'', ''Rejected'']"

text \<open>
  \<open>updateApplicationStatus\<close>: \<open>applicationId\<close> is the route parameter, \<open>st\<close> the
  \<open>status\<close> property of the body.
  \<^verbatim>\<open>
    if (!mongoose.Types.ObjectId.isValid(applicationId)) { return res.status(400) ... }
    if (!status) { return res.status(400) ... }
    if (!validStatuses.includes(status)) { return res.status(400) ... }
    const application = await Application.findByIdAndUpdate(applicationId, { status },
                                                            { new: true, runValidators: true });
    if (!application) { return res.status(404) ... }
    return res.status(200).json({ ..., data: application });
  \<close>
\<close>

fun stringOf :: "jsval \<Rightarrow> string" where
  "stringOf (JStr s) = s"
| "stringOf v = []"

definition updateApplicationStatus ::
  "db \<Rightarrow> string \<Rightarrow> jsval \<Rightarrow> application response \<times> db" where
  "updateApplicationStatus d applicationId st =
     (if \<not> ObjectId_isValid (JStr applicationId)
      then (respond 400 False ''Invalid application ID.'' None, d)
      else if \<not> truthy st
      then (respond 400 False ''Status is required.'' None, d)
      else if st \<notin> set (map JStr validStatuses)
      then (respond 400 False ''Invalid status value.'' None, d)
      else case castObjectId applicationId of
        None \<Rightarrow> (internalError, d)
      | Some aid \<Rightarrow>
          (case findById app_id aid (applications d) of
             None \<Rightarrow> (respond 404 False ''Application not found.'' None, d)
           | Some a \<Rightarrow>
               (respond 200 True ''Application status updated successfully.''
                  (Some (a\<lparr>app_status := stringOf st\<rparr>)),
                d\<lparr>applications :=
                    updateOne (\<lambda>x. app_id x = aid) (\<lambda>x. x\<lparr>app_status := stringOf st\<rparr>)
                      (applications d)\<rparr>)))"

section \<open>controllers/user.controller.js\<close>

text \<open>
  The user schema declares \<open>email\<close> with \<open>lowercase: true\<close> and \<open>trim: true\<close>.
  Both are setters: they run on the value of a document that is saved and on the value
  of a query filter that is cast.
\<close>

definition emailSetters :: "string \<Rightarrow> string" where
  "emailSetters s = trim (toLowerCase s)"

text \<open>
  What the handler takes from outside the repository: the test of the schema's regular
  expression for an email address, the validation of the profile sub-document, the
  salted hash of a password, and the upload of a file to the object storage (\<open>None\<close>
  when the upload throws, the public URL otherwise).
\<close>

record 'f services =
  sv_emailMatch :: "string \<Rightarrow> bool"
  sv_profileValid :: "(string \<times> jsval) list \<Rightarrow> bool"
  sv_hash :: "string \<Rightarrow> string"
  sv_upload :: "'f \<Rightarrow> string option"

record userBody =
  ub_name :: "string option"
  ub_email :: "string option"
  ub_phone :: "string option"
  ub_password :: "string option"
  ub_role :: "string option"
  ub_profile :: "(string \<times> jsval) list option"

text \<open>Setting a property of an object, and the object spread \<open>{...base, ...extra}\<close>.\<close>

fun setProp :: "string \<Rightarrow> jsval \<Rightarrow> (string \<times> jsval) list \<Rightarrow> (string \<times> jsval) list" where
  "setProp k v [] = [(k, v)]"
| "setProp k v ((k', v') # kvs) =
     (if k = k' then (k, v) # kvs else (k', v') # setProp k v kvs)"

fun objSpread :: "(string \<times> jsval) list \<Rightarrow> (string \<times> jsval) list \<Rightarrow> (string \<times> jsval) list" where
  "objSpread base [] = base"
| "objSpread base ((k, v) # kvs) = objSpread (setProp k v base) kvs"

definition isDigit :: "char \<Rightarrow> bool" where
  "isDigit c = (let n = (of_char c :: nat) in 48 \<le> n \<and> n \<le> 57)"

text \<open>
  \<open>User.create\<close> under the user schema: \<open>name\<close> and \<open>email\<close> pass their setters;
  the document is validated (name and email required, the email pattern, a phone of ten
  digits, a password of six characters or more, a role of the enumeration, the
  profile); the email must not be taken (the unique index); the hook hashes the
  password; the document is inserted.
\<close>

definition User_create ::
  "'f services \<Rightarrow> oid \<Rightarrow> userBody \<Rightarrow> string \<Rightarrow> user list \<Rightarrow> (user \<times> user list) option" where
  "User_create sv newId body profileImage coll =
     (let name = trim (strOf (ub_name body));
          email = emailSetters (strOf (ub_email body));
          phone = strOf (ub_phone body);
          password = strOf (ub_password body);
          role = strOf (ub_role body);
          profile = objSpread [(''profileImage'', JStr profileImage)] (listOf (ub_profile body))
      in if name = [] \<or> email = [] \<or> \<not> sv_emailMatch sv email
            \<or> \<not> (length phone = 10 \<and> list_all isDigit phone)
            \<or> length password < 6
            \<or> role \<notin> set [''user'', ''recruiter'']
            \<or> \<not> sv_profileValid sv profile
         then None
         else if email \<in> set (map user_email coll) then None
         else (let u = \<lparr>user_id = newId,
                        user_name = name,
                        user_email = email,
                        user_phone = phone,
                        user_password = sv_hash sv password,
                        user_role = role,
                        user_profile = profile\<rparr>
               in case insertDoc user_id u coll of
                    None \<Rightarrow> None
                  | Some us \<Rightarrow> Some (u, us)))"

text \<open>
  \<open>createUser\<close>: \<open>file\<close> is \<open>req.file\<close>.
  \<^verbatim>\<open>
    if (!name || !email || !phone || !password || !role) { return res.status(400) ... }
    const existingUser = await User.findOne({ email });
    if (existingUser) { return res.status(400) ... "User with this email already exists" }
    let cloudResponse;
    if (file) { cloudResponse = await cloudinary.uploader.upload(...); }
    const user = await User.create({ name, email, phone, password, role,
      profile: { profileImage: cloudResponse ? cloudResponse.secure_url : "", ...profile } });
    return res.json({ success: true, message: "User created successfully", user });
  \<close>
  The \<open>catch\<close> block of this handler answers 500 with its own message. \<open>create\<close>
  returns the document or throws, so the test \<open>if (!user)\<close> that follows it in the
  source never succeeds and has no branch here.
\<close>

abbreviation userInternalError :: "'a response" where
  "userInternalError \<equiv> respond 500 False ''Internal Server Error'' None"

definition createUser ::
  "'f services \<Rightarrow> oid \<Rightarrow> db \<Rightarrow> userBody \<Rightarrow> 'f option \<Rightarrow> user response \<times> db" where
  "createUser sv newId d body file =
     (if \<not> present (ub_name body) \<or> \<not> present (ub_email body) \<or> \<not> present (ub_phone body)
         \<or> \<not> present (ub_password body) \<or> \<not> present (ub_role body)
      then (respond 400 False ''All fields are required'' None, d)
      else case findOne (\<lambda>u. user_email u = emailSetters (strOf (ub_email body))) (users d) of
        Some existingUser \<Rightarrow>
          (respond 400 False ''User with this email already exists'' None, d)
      | None \<Rightarrow>
          (case (case file of
                   None \<Rightarrow> Some []
                 | Some f \<Rightarrow> sv_upload sv f) of
             None \<Rightarrow> (userInternalError, d)
           | Some profileImage \<Rightarrow>
               (case User_create sv newId body profileImage (users d) of
                  None \<Rightarrow> (userInternalError, d)
                | Some (u, us) \<Rightarrow>
                    (respond 200 True ''User created successfully'' (Some u),
                     d\<lparr>users := us\<rparr>))))"

section \<open>An example store\<close>

text \<open>
  One user, the company Acme, the category Engineering, one job of Acme filed under
  Engineering, and the user's application for that job. \<open>idGone\<close> and \<open>idNew\<close> are
  well-formed identifiers of no document.
\<close>

definition idAcme :: oid where "idAcme = ''64a1f0c2b3d4e5f601230001''"
definition idEng :: oid where "idEng = ''64a1f0c2b3d4e5f601230002''"
definition idUser :: oid where "idUser = ''64a1f0c2b3d4e5f601230003''"
definition idJob :: oid where "idJob = ''64a1f0c2b3d4e5f601230004''"
definition idApp :: oid where "idApp = ''64a1f0c2b3d4e5f601230005''"
definition idNew :: oid where "idNew = ''64a1f0c2b3d4e5f601230006''"
definition idGone :: oid where "idGone = ''64a1f0c2b3d4e5f601230009''"

definition alice :: user where
  "alice = \<lparr>user_id = idUser, user_name = ''Alice'', user_email = ''alice@example.com'',
            user_phone = ''5550100200'', user_password = ''$2a$10$hash'', user_role = ''user'',
            user_profile = [(''profileImage'', JStr [])]\<rparr>"

definition acme :: company where
  "acme = \<lparr>company_id = idAcme, company_name = ''Acme'', company_description = ''Anvils'',
           company_website = ''https://acme.example'', company_location = ''Pune'',
           company_logo = None, company_jobs = [idJob], company_userId = [idUser]\<rparr>"

definition engineering :: jobCategory where
  "engineering = \<lparr>category_id = idEng, category_name = ''Engineering'', category_jobs = [idJob]\<rparr>"

definition job1 :: job where
  "job1 = \<lparr>job_id = idJob, job_title = JStr ''Engineer'', job_description = JStr ''Builds anvils'',
           job_company = idAcme, job_location = JStr ''Pune'', job_experience = JNum 2,
           job_salary = JNum 10, job_jobOpenings = JNum 1, job_requirements = JArr [JStr ''steel''],
           job_jobType = JStr ''Full-time'', job_categories = [idEng], job_postedBy = idUser,
           job_applicants = [idApp]\<rparr>"

definition app1 :: application where
  "app1 = \<lparr>app_id = idApp, app_job = idJob, app_applicant = idUser,
           app_resume = ''https://cv.example/alice.pdf'', app_status = ''Applied'',
           app_coverLetter = None\<rparr>"

definition exampleDb :: db where
  "exampleDb = \<lparr>users = [alice], companies = [acme], jobCategories = [engineering],
                jobs = [job1], applications = [app1]\<rparr>"

definition globexBody :: companyBody where
  "globexBody = \<lparr>cb_name = Some ''Globex'', cb_description = Some ''Power plants'',
                 cb_website = Some '' https://globex.example '', cb_location = Some ''Mumbai'',
                 cb_userId = JStr ''someone else''\<rparr>"

text \<open>The number of applications stored for a job and an applicant.\<close>

definition applicationsFor :: "oid \<Rightarrow> oid \<Rightarrow> db \<Rightarrow> nat" where
  "applicationsFor jid uid d =
     length (findMany (\<lambda>a. app_job a = jid \<and> app_applicant a = uid) (applications d))"

definition resumeBody :: applyBody where
  "resumeBody = \<lparr>ab_resume = Some ''https://cv.example/alice.pdf'', ab_coverLetter = Some '' Hello ''\<rparr>"

text \<open>The example store after its job has been deleted: the application stays behind.\<close>

definition orphanDb :: db where
  "orphanDb = \<lparr>users = [alice], companies = [acme\<lparr>company_jobs := []\<rparr>],
               jobCategories = [engineering\<lparr>category_jobs := []\<rparr>],
               jobs = [], applications = [app1]\<rparr>"

text \<open>
  Two instances of the schema parameter of \<open>Job_create\<close>: a schema that accepts every
  document, and one that requires every attribute the specification lists for a job.
\<close>

definition jobSchemaAny :: "jobBody \<Rightarrow> bool" where
  "jobSchemaAny b = True"

definition jobSchemaStrict :: "jobBody \<Rightarrow> bool" where
  "jobSchemaStrict b =
     (truthy (jb_title b) \<and> truthy (jb_description b) \<and> truthy (jb_location b)
      \<and> truthy (jb_experience b) \<and> truthy (jb_salary b) \<and> truthy (jb_jobOpenings b)
      \<and> truthy (jb_requirements b) \<and> truthy (jb_jobType b))"

definition anvilBody :: jobBody where
  "anvilBody = \<lparr>jb_title = JStr ''Smith'', jb_description = JStr ''Forges anvils'',
                jb_company = Some idAcme, jb_location = JStr ''Pune'', jb_experience = JNum 3,
                jb_salary = JNum 12, jb_jobOpenings = JNum 2,
                jb_requirements = JArr [JStr ''hammer''], jb_jobType = JStr ''Full-time'',
                jb_categories = Some [idEng]\<rparr>"

text \<open>Services for the examples, and a registration that reuses Alice's email in capitals.\<close>

definition exampleServices :: "unit services" where
  "exampleServices = \<lparr>sv_emailMatch = (\<lambda>e. CHR ''@'' \<in> set e),
                       sv_profileValid = (\<lambda>p. True),
                       sv_hash = (\<lambda>p. ''$2a$10$'' @ p),
                       sv_upload = (\<lambda>f. Some ''https://cdn.example/p.png'')\<rparr>"

definition aliceAgain :: userBody where
  "aliceAgain = \<lparr>ub_name = Some ''Alicia'', ub_email = Some ''Alice@Example.COM'',
                 ub_phone = Some ''5550100201'', ub_password = Some ''secret1'',
                 ub_role = Some ''recruiter'', ub_profile = None\<rparr>"

section \<open>Facts about the collection operations\<close>

lemma findOne_Some: "findOne P coll = Some x \<Longrightarrow> x \<in> set coll \<and> P x"
  unfolding findOne_def by (induction coll) (auto split: if_splits)

lemma findOne_None: "findOne P coll = None \<longleftrightarrow> (\<forall>x\<in>set coll. \<not> P x)"
  unfolding findOne_def by (auto simp: find_None_iff)

lemma findById_Some: "findById idf i coll = Some x \<Longrightarrow> x \<in> set coll \<and> idf x = i"
  unfolding findById_def by (rule findOne_Some)

lemma findById_None: "findById idf i coll = None \<longleftrightarrow> i \<notin> idf ` set coll"
  unfolding findById_def by (auto simp: findOne_None)

lemma castObjectId_valid: "ObjectId_isValid (JStr s) \<Longrightarrow> castObjectId s = Some (toLowerCase s)"
  by (simp add: castObjectId_def)

lemma castObjectId_Some: "castObjectId s = Some k \<Longrightarrow> validHexString s \<and> k = toLowerCase s"
  by (simp add: castObjectId_def split: if_splits)

lemma findById_updateOne:
  "findById idf i coll = Some a \<Longrightarrow> idf (f a) = i
     \<Longrightarrow> findById idf i (updateOne (\<lambda>x. idf x = i) f coll) = Some (f a)"
  unfolding findById_def findOne_def by (induction coll) (auto split: if_splits)

lemma map_id_updateOne:
  "(\<And>x. idf (f x) = idf x) \<Longrightarrow> map idf (updateOne P f coll) = map idf coll"
  by (induction coll) auto

lemma castObjectIds_Some:
  "castObjectIds ss = Some ks \<Longrightarrow> ks = map toLowerCase ss \<and> (\<forall>s\<in>set ss. validHexString s)"
  by (induction ss arbitrary: ks) (auto simp: castObjectId_def split: option.splits if_splits)

lemma castObjectIds_None:
  "castObjectIds ss = None \<Longrightarrow> \<exists>s\<in>set ss. \<not> validHexString s"
  by (induction ss) (auto simp: castObjectId_def split: option.splits if_splits)

lemma castObjectIds_length: "castObjectIds ss = Some ks \<Longrightarrow> length ks = length ss"
  by (drule castObjectIds_Some) simp

lemma castObjectIds_member:
  "castObjectIds ss = Some ks \<Longrightarrow> s \<in> set ss \<Longrightarrow> castObjectId s = Some (toLowerCase s) \<and> toLowerCase s \<in> set ks"
  by (drule castObjectIds_Some) (auto simp: castObjectId_def)

lemma findMany_count_le:
  assumes "uniqueIds idf coll"
  shows "length (findMany (\<lambda>c. idf c \<in> set ks) coll) \<le> card (set ks \<inter> idf ` set coll)"
proof -
  let ?ys = "filter (\<lambda>c. idf c \<in> set ks) coll"
  have d: "distinct (map idf ?ys)" using assms by (simp add: uniqueIds_def distinct_map_filter)
  have "length ?ys = length (map idf ?ys)" by simp
  also have "\<dots> = card (set (map idf ?ys))" by (rule distinct_card[OF d, symmetric])
  also have "set (map idf ?ys) = set ks \<inter> idf ` set coll" by auto
  finally show ?thesis by (simp add: findMany_def)
qed

lemma findMany_count_all:
  assumes "uniqueIds idf coll" and "length (findMany (\<lambda>c. idf c \<in> set ks) coll) = length ks"
  shows "set ks \<subseteq> idf ` set coll"
proof -
  have "length ks \<le> card (set ks \<inter> idf ` set coll)"
    using findMany_count_le[OF assms(1), of ks] assms(2) by simp
  moreover have "card (set ks \<inter> idf ` set coll) \<le> card (set ks)"
    by (simp add: card_mono)
  moreover have "card (set ks) \<le> length ks" by (rule card_length)
  ultimately have "card (set ks \<inter> idf ` set coll) = card (set ks)" by simp
  then have "set ks \<inter> idf ` set coll = set ks"
    by (simp add: card_subset_eq)
  then show ?thesis by blast
qed

lemma updateOne_member:
  "x \<in> set coll \<Longrightarrow> P x \<Longrightarrow> \<exists>y\<in>set coll. P y \<and> f y \<in> set (updateOne P f coll)"
  by (induction coll) auto

lemma toLowerChar_idem: "toLowerChar (toLowerChar c) = toLowerChar c"
  by (auto simp: toLowerChar_def Let_def)

lemma isSpace_toLowerChar: "isSpace (toLowerChar c) = isSpace c"
  by (auto simp: toLowerChar_def isSpace_def Let_def)

lemma dropWhile_rev_head:
  "t = [] \<or> \<not> P (hd t) \<Longrightarrow> dropWhile P (rev (dropWhile P (rev t))) = rev (dropWhile P (rev t))"
  by (cases t) (auto simp: dropWhile_append)

lemma dropWhile_trim:
  "dropWhile P (rev (dropWhile P (rev (dropWhile P s)))) = rev (dropWhile P (rev (dropWhile P s)))"
proof (rule dropWhile_rev_head)
  show "dropWhile P s = [] \<or> \<not> P (hd (dropWhile P s))"
    using hd_dropWhile[of P s] by blast
qed

lemma trim_idem: "trim (trim s) = trim s"
  unfolding trim_def by (simp add: dropWhile_trim)

lemma trim_toLowerCase: "trim (toLowerCase s) = toLowerCase (trim s)"
  unfolding trim_def toLowerCase_def
  by (simp add: dropWhile_map rev_map comp_def isSpace_toLowerChar)

lemma toLowerCase_idem: "toLowerCase (toLowerCase s) = toLowerCase s"
  by (simp add: toLowerCase_def toLowerChar_idem)

lemma emailSetters_idem: "emailSetters (emailSetters s) = emailSetters s"
  by (simp add: emailSetters_def trim_toLowerCase trim_idem toLowerCase_idem)

lemma createUser_emails_normalised:
  assumes "\<forall>x\<in>set (users d). user_email x = emailSetters (user_email x)"
  shows "\<forall>x\<in>set (users (snd (createUser sv newId d body file))). user_email x = emailSetters (user_email x)"
  using assms
  by (auto simp: createUser_def User_create_def insertDoc_def Let_def emailSetters_idem
           split: option.splits if_splits)

lemma uniqueIds_insertDoc:
  "insertDoc idf x coll = Some coll' \<Longrightarrow> uniqueIds idf coll \<Longrightarrow> uniqueIds idf coll'"
  by (auto simp: insertDoc_def uniqueIds_def split: if_splits)

lemma uniqueIds_updateMany:
  "(\<And>x. idf (f x) = idf x) \<Longrightarrow> uniqueIds idf (updateMany P f coll) = uniqueIds idf coll"
proof -
  assume a: "\<And>x. idf (f x) = idf x"
  have "map idf (updateMany P f coll) = map idf coll"
    by (induction coll) (auto simp: updateMany_def a)
  then show ?thesis by (simp add: uniqueIds_def)
qed

lemma set_deleteOne: "set (deleteOne P coll) \<subseteq> set coll"
  by (induction coll) auto

lemma uniqueIds_deleteOne: "uniqueIds idf coll \<Longrightarrow> uniqueIds idf (deleteOne P coll)"
  unfolding uniqueIds_def
proof (induction coll)
  case Nil
  then show ?case by simp
next
  case (Cons a coll)
  then show ?case using set_deleteOne[of P coll] by auto
qed

lemma map_id_updateMany:
  "(\<And>x. idf (f x) = idf x) \<Longrightarrow> map idf (updateMany P f coll) = map idf coll"
  by (induction coll) (auto simp: updateMany_def)

lemma createJobCategory_uniqueIds:
  "uniqueIds category_id (jobCategories d)
     \<Longrightarrow> uniqueIds category_id (jobCategories (snd (createJobCategory newId d name)))"
  by (auto simp: createJobCategory_def Let_def dest: uniqueIds_insertDoc split: option.splits)

lemma deleteJobCategory_uniqueIds:
  "uniqueIds category_id (jobCategories d)
     \<Longrightarrow> uniqueIds category_id (jobCategories (snd (deleteJobCategory d ident)))"
  by (auto simp: deleteJobCategory_def uniqueIds_deleteOne split: option.splits)

lemma deleteJob_uniqueIds:
  "uniqueIds category_id (jobCategories d)
     \<Longrightarrow> uniqueIds category_id (jobCategories (snd (deleteJob d ident)))"
  by (auto simp: deleteJob_def uniqueIds_updateMany split: option.splits)

lemmas example_defs = idAcme_def idEng_def idUser_def idJob_def idApp_def idNew_def idGone_def
  alice_def acme_def engineering_def job1_def app1_def exampleDb_def

lemma cast_examples:
  "castObjectId idAcme = Some idAcme" "castObjectId idEng = Some idEng"
  "castObjectId idUser = Some idUser" "castObjectId idJob = Some idJob"
  "castObjectId idApp = Some idApp" "castObjectId idNew = Some idNew"
  "castObjectId idGone = Some idGone"
  by (simp_all add: example_defs castObjectId_def validHexString_def isHexDigit_def
        toLowerCase_def toLowerChar_def)

section \<open>The sanitization boundary\<close>

text \<open>
  C5. The claim: the sanitization boundary trims and escapes every string leaf of its
  input, also the strings nested in objects and arrays, and passes the other leaves
  through. \<open>sanitizeInput\<close> does so for an input that is a string and returns every
  other input as it is: on the object \<open>{name: " <b>Acme</b> "}\<close>, the shape in which
  the handlers above call it, the string inside stays untrimmed and unescaped, where the
  boundary of the specification gives \<open>&lt;b&gt;Acme&lt;&#x2F;b&gt;\<close>.
\<close>

theorem sanitizeInput_leaves_object_unsanitized:
  "sanitizeInput (JObj [(''name'', JStr '' <b>Acme</b> '')]) = JObj [(''name'', JStr '' <b>Acme</b> '')]
   \<and> sanitizeDeep (JObj [(''name'', JStr '' <b>Acme</b> '')])
       = JObj [(''name'', JStr ''&lt;b&gt;Acme&lt;&#x2F;b&gt;'')]
   \<and> sanitizeInput (JStr '' <b>Acme</b> '') = JStr ''&lt;b&gt;Acme&lt;&#x2F;b&gt;''"
  by (simp add: escape_def trim_def escapeChar_def isSpace_def)

section \<open>Companies\<close>

text \<open>
  C4. Every call of \<open>getCompanyById\<close> answers 400 (BadRequest) exactly when the
  identifier is structurally invalid, that is, when \<open>ObjectId.isValid\<close> refuses the
  string. For a valid identifier it answers 404 (NotFound) when no company has that
  id, and otherwise 200 with a stored company of that id.
\<close>

theorem getCompanyById_outcomes:
  "(status (getCompanyById d ident) = 400 \<longleftrightarrow> \<not> ObjectId_isValid (JStr ident)) \<and>
   (ObjectId_isValid (JStr ident) \<longrightarrow>
      (\<exists>cid. castObjectId ident = Some cid \<and>
         (cid \<notin> company_id ` set (companies d) \<longrightarrow>
            getCompanyById d ident = respond 404 False ''Company not found'' None) \<and>
         (cid \<in> company_id ` set (companies d) \<longrightarrow>
            (\<exists>c\<in>set (companies d). company_id c = cid \<and>
               getCompanyById d ident = respond 200 True ''Company found successfully'' (Some c)))))"
proof (cases "ObjectId_isValid (JStr ident)")
  case False
  then show ?thesis by (simp add: getCompanyById_def respond_def)
next
  case True
  then have c: "castObjectId ident = Some (toLowerCase ident)" by (rule castObjectId_valid)
  show ?thesis
  proof (cases "findById company_id (toLowerCase ident) (companies d)")
    case None
    then have "toLowerCase ident \<notin> company_id ` set (companies d)"
      by (simp add: findById_None)
    then show ?thesis using True c None
      by (simp add: getCompanyById_def respond_def)
  next
    case (Some x)
    from findById_Some[OF Some]
    have x: "x \<in> set (companies d)" "company_id x = toLowerCase ident"
      by auto
    then have m: "toLowerCase ident \<in> company_id ` set (companies d)" by force
    have r: "getCompanyById d ident = respond 200 True ''Company found successfully'' (Some x)"
      using True c Some by (simp add: getCompanyById_def)
    show ?thesis using True c x m r by (auto simp: respond_def)
  qed
qed

theorem getCompanyById_outcomes_witness:
  "ObjectId_isValid (JStr idAcme)
   \<and> getCompanyById exampleDb idAcme = respond 200 True ''Company found successfully'' (Some acme)
   \<and> ObjectId_isValid (JStr idGone)
   \<and> getCompanyById exampleDb idGone = respond 404 False ''Company not found'' None
   \<and> \<not> ObjectId_isValid (JStr ''acme'')
   \<and> status (getCompanyById exampleDb ''acme'') = 400"
proof -
  have v: "ObjectId_isValid (JStr idAcme)" "ObjectId_isValid (JStr idGone)"
    "\<not> ObjectId_isValid (JStr ''acme'')"
    by (simp_all add: example_defs validHexString_def isHexDigit_def)
  have c: "castObjectId idAcme = Some idAcme" "castObjectId idGone = Some idGone"
    by (simp_all add: example_defs castObjectId_def validHexString_def isHexDigit_def
          toLowerCase_def toLowerChar_def)
  have m: "idAcme \<in> company_id ` set (companies exampleDb)"
    "idGone \<notin> company_id ` set (companies exampleDb)"
    by (simp_all add: example_defs)
  have s: "set (companies exampleDb) = {acme}" by (simp add: exampleDb_def)
  show ?thesis
    using getCompanyById_outcomes[of exampleDb idAcme] getCompanyById_outcomes[of exampleDb idGone]
      getCompanyById_outcomes[of exampleDb "''acme''"] v c m s
    by auto
qed

text \<open>
  C10. \<open>createCompany\<close> answers 400 (BadRequest), and stores nothing, whenever the
  body has no \<open>userId\<close>; whenever a company is created (201), its list of owners is
  the identifier of the authenticated caller alone; and the value the body gives for
  \<open>userId\<close> is ignored: any two values that pass the check lead to the same answer and
  the same store.
\<close>

theorem createCompany_owner:
  "(\<not> truthy (cb_userId body) \<longrightarrow>
      createCompany newId d user body = (respond 400 False ''All fields are required'' None, d)) \<and>
   (\<forall>r d'. createCompany newId d user body = (r, d') \<and> status r = 201 \<longrightarrow>
      (\<exists>uid c. castObjectId user = Some uid \<and> payload r = Some c \<and> company_id c = newId
         \<and> company_userId c = [uid] \<and> companies d' = companies d @ [c])) \<and>
   (truthy (cb_userId body) \<and> truthy v \<longrightarrow>
      createCompany newId d user (body\<lparr>cb_userId := v\<rparr>) = createCompany newId d user body)"
  by (auto simp: createCompany_def respond_def insertDoc_def Let_def
           split: option.splits if_splits)

theorem createCompany_owner_witness:
  "\<not> truthy (cb_userId (globexBody\<lparr>cb_userId := JUndefined\<rparr>))
   \<and> status (fst (createCompany idNew exampleDb idUser (globexBody\<lparr>cb_userId := JUndefined\<rparr>))) = 400
   \<and> truthy (cb_userId globexBody) \<and> truthy (JNum 7)
   \<and> status (fst (createCompany idNew exampleDb idUser globexBody)) = 201
   \<and> map company_userId (companies (snd (createCompany idNew exampleDb idUser globexBody)))
       = [[idUser], [idUser]]
   \<and> createCompany idNew exampleDb idUser (globexBody\<lparr>cb_userId := JNum 7\<rparr>)
       = createCompany idNew exampleDb idUser globexBody"
proof -
  have c: "castObjectId idUser = Some idUser"
    by (simp add: example_defs castObjectId_def validHexString_def isHexDigit_def
          toLowerCase_def toLowerChar_def)
  have s: "status (fst (createCompany idNew exampleDb idUser globexBody)) = 201"
    by code_simp
  obtain r d' where rd: "createCompany idNew exampleDb idUser globexBody = (r, d')"
    by (cases "createCompany idNew exampleDb idUser globexBody")
  have t: "truthy (cb_userId globexBody)" "\<not> truthy (cb_userId (globexBody\<lparr>cb_userId := JUndefined\<rparr>))"
    by (simp_all add: globexBody_def)
  show ?thesis
    using createCompany_owner[of "globexBody\<lparr>cb_userId := JUndefined\<rparr>" idNew exampleDb idUser "JNum 7"]
      createCompany_owner[of globexBody idNew exampleDb idUser "JNum 7"] c s rd t
    by (auto simp: respond_def exampleDb_def acme_def)
qed

section \<open>Deleting a job\<close>

text \<open>
  C2. After every successful deletion of a job (answer 200), the identifier of the job
  is in the \<open>jobs\<close> list of no company and of no job category, so of none that
  referenced it before, and the collection of applications is the same as before: every
  application that refers to the deleted job is still stored, unchanged.
\<close>

theorem deleteJob_unlinks:
  assumes "deleteJob d ident = (r, d')" and "status r = 200"
  shows "\<exists>jid. castObjectId ident = Some jid
           \<and> (\<forall>c\<in>set (companies d'). jid \<notin> set (company_jobs c))
           \<and> (\<forall>c\<in>set (jobCategories d'). jid \<notin> set (category_jobs c))
           \<and> applications d' = applications d"
  using assms
  by (auto simp: deleteJob_def respond_def updateMany_def pull_def
           split: if_splits option.splits)

theorem deleteJob_unlinks_witness:
  "deleteJob exampleDb idJob = (respond 200 True ''Job deleted successfully'' None, orphanDb)
   \<and> status (respond 200 True ''Job deleted successfully'' None :: unit response) = 200
   \<and> idJob \<in> set (company_jobs acme) \<and> idJob \<in> set (category_jobs engineering)
   \<and> map company_jobs (companies orphanDb) = [[]]
   \<and> map category_jobs (jobCategories orphanDb) = [[]]
   \<and> applications orphanDb = applications exampleDb"
proof -
  have e: "deleteJob exampleDb idJob = (respond 200 True ''Job deleted successfully'' None, orphanDb)"
    by code_simp
  have s: "status (respond 200 True ''Job deleted successfully'' None :: unit response) = 200"
    by (simp add: respond_def)
  show ?thesis
    using deleteJob_unlinks[OF e s] e s
    by (auto simp: orphanDb_def exampleDb_def acme_def engineering_def)
qed

section \<open>Applications\<close>

text \<open>
  Two applications in a row: when \<open>applyJob\<close> has created an application (201), the
  same call on the store it leaves, whatever the body and the generated identifier, is
  answered 400 with the message that the user has already applied, and stores nothing.
\<close>

lemma applyJob_existing:
  assumes "castObjectId jobId = Some jid" and "castObjectId userId = Some uid"
    and "a \<in> set (applications d)" and "app_job a = jid" and "app_applicant a = uid"
    and "jid \<in> job_id ` set (jobs d)"
  shows "applyJob newId d userId jobId body
           = (respond 400 False ''You have already applied for this job.'' None, d)"
proof -
  have ex: "findOne (\<lambda>a. app_applicant a = uid \<and> app_job a = jid) (applications d) \<noteq> None"
    using assms(3-5) by (auto simp: findOne_None)
  have "findById job_id jid (jobs d) \<noteq> None" using assms(6) by (simp add: findById_None)
  then show ?thesis using assms(1,2) ex by (auto simp: applyJob_def)
qed

lemma applyJob_created:
  assumes "applyJob newId d userId jobId body = (r, d')" and "status r = 201"
  shows "\<exists>jid uid a. castObjectId jobId = Some jid \<and> castObjectId userId = Some uid
           \<and> findById job_id jid (jobs d) \<noteq> None
           \<and> app_job a = jid \<and> app_applicant a = uid \<and> app_id a = newId
           \<and> applications d' = applications d @ [a]
           \<and> jobs d' = updateOne (\<lambda>j. job_id j = jid)
                   (\<lambda>j. j\<lparr>job_applicants := push newId (job_applicants j)\<rparr>) (jobs d)"
  using assms
  by (simp add: applyJob_def Let_def respond_def insertDoc_def split: option.splits if_splits,
      auto simp: respond_def)

lemma applyJob_twice:
  assumes "applyJob newId d userId jobId body = (r, d')" and "status r = 201"
  shows "applyJob newId' d' userId jobId body'
           = (respond 400 False ''You have already applied for this job.'' None, d')"
proof -
  from applyJob_created[OF assms] obtain jid uid a where
    j: "castObjectId jobId = Some jid" and u: "castObjectId userId = Some uid"
    and f: "findById job_id jid (jobs d) \<noteq> None"
    and a: "app_job a = jid" "app_applicant a = uid"
    and d': "applications d' = applications d @ [a]"
      "jobs d' = updateOne (\<lambda>j. job_id j = jid)
                   (\<lambda>j. j\<lparr>job_applicants := push newId (job_applicants j)\<rparr>) (jobs d)"
    by blast
  have "map job_id (jobs d') = map job_id (jobs d)"
    unfolding d' by (rule map_id_updateOne) simp
  then have "job_id ` set (jobs d') = job_id ` set (jobs d)" by (metis set_map)
  then have m: "jid \<in> job_id ` set (jobs d')" using f by (simp add: findById_None)
  have "a \<in> set (applications d')" by (simp add: d')
  from applyJob_existing[OF j u this a m] show ?thesis .
qed

text \<open>
  C8, as amended. When an application is stored for a job and an applicant, a further
  \<open>applyJob\<close> for the same pair leaves the store as it is, so no application is
  created and the number of applications for the pair stays what it was. If the job
  still exists the answer is 400 with the message that the user has already applied
  (Conflict); if the job has been deleted in the meantime the answer is 404
  (NotFound), because the handler looks the job up before it looks for the application.
\<close>

theorem applyJob_duplicate:
  assumes "castObjectId jobId = Some jid" and "castObjectId userId = Some uid"
    and "a \<in> set (applications d)" and "app_job a = jid" and "app_applicant a = uid"
  shows "snd (applyJob newId d userId jobId body) = d
         \<and> applicationsFor jid uid (snd (applyJob newId d userId jobId body)) = applicationsFor jid uid d
         \<and> (jid \<in> job_id ` set (jobs d) \<longrightarrow>
              fst (applyJob newId d userId jobId body)
                = respond 400 False ''You have already applied for this job.'' None)
         \<and> (jid \<notin> job_id ` set (jobs d) \<longrightarrow>
              fst (applyJob newId d userId jobId body) = respond 404 False ''Job not found.'' None)"
proof -
  have ex: "findOne (\<lambda>a. app_applicant a = uid \<and> app_job a = jid) (applications d) \<noteq> None"
    using assms(3-5) by (auto simp: findOne_None)
  show ?thesis
  proof (cases "findById job_id jid (jobs d)")
    case None
    then have "jid \<notin> job_id ` set (jobs d)" by (simp add: findById_None)
    then show ?thesis using assms(1) None by (simp add: applyJob_def)
  next
    case (Some j)
    then have "jid \<in> job_id ` set (jobs d)" using findById_None[of job_id jid "jobs d"] by auto
    then show ?thesis using assms(1,2) Some ex by (auto simp: applyJob_def)
  qed
qed

theorem applyJob_duplicate_witness:
  "castObjectId idJob = Some idJob \<and> castObjectId idUser = Some idUser
   \<and> app1 \<in> set (applications exampleDb) \<and> app_job app1 = idJob \<and> app_applicant app1 = idUser
   \<and> idJob \<in> job_id ` set (jobs exampleDb)
   \<and> applyJob idNew exampleDb idUser idJob resumeBody
       = (respond 400 False ''You have already applied for this job.'' None, exampleDb)
   \<and> applicationsFor idJob idUser exampleDb = 1
   \<and> app1 \<in> set (applications orphanDb) \<and> idJob \<notin> job_id ` set (jobs orphanDb)
   \<and> applyJob idNew orphanDb idUser idJob resumeBody
       = (respond 404 False ''Job not found.'' None, orphanDb)"
proof -
  have h: "app1 \<in> set (applications exampleDb)" "app_job app1 = idJob" "app_applicant app1 = idUser"
    "app1 \<in> set (applications orphanDb)"
    by (simp_all add: exampleDb_def orphanDb_def app1_def)
  have j: "idJob \<in> job_id ` set (jobs exampleDb)" "idJob \<notin> job_id ` set (jobs orphanDb)"
    by (simp_all add: exampleDb_def orphanDb_def job1_def)
  have n: "applicationsFor idJob idUser exampleDb = 1" by code_simp
  show ?thesis
    using applyJob_duplicate[OF cast_examples(4) cast_examples(3) h(1) h(2) h(3), of idNew resumeBody]
      applyJob_duplicate[OF cast_examples(4) cast_examples(3) h(4) h(2) h(3), of idNew resumeBody]
      h j n cast_examples(3,4)
    by (simp add: prod_eq_iff)
qed

text \<open>
  The claim as it was stated fails in a store that the handlers themselves produce:
  deleting the job of the example store leaves its application behind, and a second
  application for the same job by the same user is then answered 404, not Conflict.
\<close>

theorem applyJob_after_deleteJob_counterexample:
  "snd (deleteJob exampleDb idJob) = orphanDb
   \<and> applicationsFor idJob idUser orphanDb = 1
   \<and> fst (applyJob idNew orphanDb idUser idJob resumeBody) = respond 404 False ''Job not found.'' None
   \<and> fst (applyJob idNew orphanDb idUser idJob resumeBody)
       \<noteq> respond 400 False ''You have already applied for this job.'' None"
  by code_simp

text \<open>
  C9. Every call of \<open>updateApplicationStatus\<close> whose status is not one of Applied,
  Reviewed, Interview, Offered, Rejected is answered by one of the three validation
  failures (400) and leaves the store, hence the stored status, unchanged. Conversely,
  for every stored application and every status of the enumeration, whatever the
  status stored before, the answer is 200 and the stored application has the new status.
\<close>

theorem updateApplicationStatus_enum:
  "(st \<notin> JStr ` set validStatuses \<longrightarrow>
      snd (updateApplicationStatus d applicationId st) = d
      \<and> fst (updateApplicationStatus d applicationId st)
          \<in> {respond 400 False ''Invalid application ID.'' None,
              respond 400 False ''Status is required.'' None,
              respond 400 False ''Invalid status value.'' None}) \<and>
   (\<forall>aid a s. castObjectId applicationId = Some aid \<and> findById app_id aid (applications d) = Some a
        \<and> s \<in> set validStatuses \<and> st = JStr s \<longrightarrow>
      fst (updateApplicationStatus d applicationId st)
        = respond 200 True ''Application status updated successfully.'' (Some (a\<lparr>app_status := s\<rparr>))
      \<and> findById app_id aid (applications (snd (updateApplicationStatus d applicationId st)))
          = Some (a\<lparr>app_status := s\<rparr>)
      \<and> map app_id (applications (snd (updateApplicationStatus d applicationId st)))
          = map app_id (applications d))"
proof (intro conjI allI impI)
  assume "st \<notin> JStr ` set validStatuses"
  then show "snd (updateApplicationStatus d applicationId st) = d"
    by (auto simp: updateApplicationStatus_def)
next
  assume "st \<notin> JStr ` set validStatuses"
  then show "fst (updateApplicationStatus d applicationId st)
          \<in> {respond 400 False ''Invalid application ID.'' None,
              respond 400 False ''Status is required.'' None,
              respond 400 False ''Invalid status value.'' None}"
    by (auto simp: updateApplicationStatus_def)
next
  fix aid a s
  assume h: "castObjectId applicationId = Some aid \<and> findById app_id aid (applications d) = Some a
        \<and> s \<in> set validStatuses \<and> st = JStr s"
  then have v: "ObjectId_isValid (JStr applicationId)" using castObjectId_Some by auto
  have t: "truthy st" using h by (auto simp: validStatuses_def)
  have m: "st \<in> set (map JStr validStatuses)" using h by auto
  have i: "app_id (a\<lparr>app_status := s\<rparr>) = aid" using h findById_Some[of app_id aid "applications d" a] by simp
  show "fst (updateApplicationStatus d applicationId st)
        = respond 200 True ''Application status updated successfully.'' (Some (a\<lparr>app_status := s\<rparr>))"
    using h v t m by (simp add: updateApplicationStatus_def)
  show "findById app_id aid (applications (snd (updateApplicationStatus d applicationId st)))
          = Some (a\<lparr>app_status := s\<rparr>)"
    using h v t m i by (simp add: updateApplicationStatus_def findById_updateOne)
  show "map app_id (applications (snd (updateApplicationStatus d applicationId st)))
          = map app_id (applications d)"
    using h v t m by (simp add: updateApplicationStatus_def map_id_updateOne)
qed

theorem updateApplicationStatus_enum_witness:
  "JStr ''Hired'' \<notin> JStr ` set validStatuses
   \<and> updateApplicationStatus exampleDb idApp (JStr ''Hired'')
       = (respond 400 False ''Invalid status value.'' None, exampleDb)
   \<and> castObjectId idApp = Some idApp \<and> findById app_id idApp (applications exampleDb) = Some app1
   \<and> ''Offered'' \<in> set validStatuses
   \<and> fst (updateApplicationStatus exampleDb idApp (JStr ''Offered''))
       = respond 200 True ''Application status updated successfully.''
           (Some (app1\<lparr>app_status := ''Offered''\<rparr>))
   \<and> applications (snd (updateApplicationStatus exampleDb idApp (JStr ''Offered'')))
       = [app1\<lparr>app_status := ''Offered''\<rparr>]"
proof -
  have a: "JStr ''Hired'' \<notin> JStr ` set validStatuses" "''Offered'' \<in> set validStatuses"
    by (simp_all add: validStatuses_def)
  have f: "findById app_id idApp (applications exampleDb) = Some app1"
    by (simp add: findById_def findOne_def exampleDb_def app1_def)
  have e: "updateApplicationStatus exampleDb idApp (JStr ''Hired'')
       = (respond 400 False ''Invalid status value.'' None, exampleDb)"
    "applications (snd (updateApplicationStatus exampleDb idApp (JStr ''Offered'')))
       = [app1\<lparr>app_status := ''Offered''\<rparr>]"
    by code_simp+
  show ?thesis
    using updateApplicationStatus_enum[of "JStr ''Hired''" exampleDb idApp]
      updateApplicationStatus_enum[of "JStr ''Offered''" exampleDb idApp]
      a f e cast_examples(5)
    by simp
qed

section \<open>Posting a job\<close>

lemma postJob_guard:
  assumes "\<not> truthy (jb_title body) \<or> \<not> truthy (jb_description body)
         \<or> \<not> present (jb_company body) \<or> \<not> truthy (jb_experience body)
         \<or> \<not> truthy (jb_location body) \<or> \<not> truthy (jb_jobOpenings body)
         \<or> \<not> truthy (jb_jobType body) \<or> jb_categories body = None \<or> userId = []"
  shows "postJob jobSchema newId d userId body
           = (respond 400 False ''All required fields must be provided'' None, d)"
  unfolding postJob_def using assms by (rule if_P)

lemma postJob_past_guard:
  assumes "truthy (jb_title body)" and "truthy (jb_description body)" and "present (jb_company body)"
    and "truthy (jb_experience body)" and "truthy (jb_location body)"
    and "truthy (jb_jobOpenings body)" and "truthy (jb_jobType body)"
    and "jb_categories body \<noteq> None" and "userId \<noteq> []"
  shows "postJob jobSchema newId d userId body =
     (case castObjectId (strOf (jb_company body)) of
        None \<Rightarrow> (internalError, d)
      | Some cid \<Rightarrow>
          (case findById company_id cid (companies d) of
             None \<Rightarrow> (respond 400 False ''Invalid company ID'' None, d)
           | Some validCompany \<Rightarrow>
               (case castObjectIds (listOf (jb_categories body)) of
                  None \<Rightarrow> (internalError, d)
                | Some cids \<Rightarrow>
                    (if length (findMany (\<lambda>c. category_id c \<in> set cids) (jobCategories d))
                          \<noteq> length (listOf (jb_categories body))
                     then (respond 400 False ''One or more job categories are invalid'' None, d)
                     else case Job_create jobSchema newId cid cids userId body (jobs d) of
                          None \<Rightarrow> (internalError, d)
                        | Some (newJob, js) \<Rightarrow>
                            (respond 201 True ''Job created successfully'' (Some newJob),
                             d\<lparr>jobs := js,
                               jobCategories :=
                                 updateMany (\<lambda>c. category_id c \<in> set cids)
                                   (\<lambda>c. c\<lparr>category_jobs := push (job_id newJob) (category_jobs c)\<rparr>)
                                   (jobCategories d),
                               companies :=
                                 updateOne (\<lambda>c. company_id c = cid)
                                   (\<lambda>c. c\<lparr>company_jobs := push (job_id newJob) (company_jobs c)\<rparr>)
                                   (companies d)\<rparr>)))))"
proof -
  have "\<not> (\<not> truthy (jb_title body) \<or> \<not> truthy (jb_description body)
         \<or> \<not> present (jb_company body) \<or> \<not> truthy (jb_experience body)
         \<or> \<not> truthy (jb_location body) \<or> \<not> truthy (jb_jobOpenings body)
         \<or> \<not> truthy (jb_jobType body) \<or> jb_categories body = None \<or> userId = [])"
    using assms by simp
  then show ?thesis unfolding postJob_def Let_def by (rule if_not_P)
qed

lemma postJob_created:
  assumes "postJob jobSchema newId d userId body = (r, d')" and "status r = 201"
  shows "\<exists>cid validCompany cids newJob js.
      castObjectId (strOf (jb_company body)) = Some cid
    \<and> findById company_id cid (companies d) = Some validCompany
    \<and> castObjectIds (listOf (jb_categories body)) = Some cids
    \<and> length (findMany (\<lambda>c. category_id c \<in> set cids) (jobCategories d))
        = length (listOf (jb_categories body))
    \<and> Job_create jobSchema newId cid cids userId body (jobs d) = Some (newJob, js)
    \<and> r = respond 201 True ''Job created successfully'' (Some newJob)
    \<and> d' = d\<lparr>jobs := js,
               jobCategories :=
                 updateMany (\<lambda>c. category_id c \<in> set cids)
                   (\<lambda>c. c\<lparr>category_jobs := push (job_id newJob) (category_jobs c)\<rparr>)
                   (jobCategories d),
               companies :=
                 updateOne (\<lambda>c. company_id c = cid)
                   (\<lambda>c. c\<lparr>company_jobs := push (job_id newJob) (company_jobs c)\<rparr>)
                   (companies d)\<rparr>"
proof (cases "\<not> truthy (jb_title body) \<or> \<not> truthy (jb_description body)
         \<or> \<not> present (jb_company body) \<or> \<not> truthy (jb_experience body)
         \<or> \<not> truthy (jb_location body) \<or> \<not> truthy (jb_jobOpenings body)
         \<or> \<not> truthy (jb_jobType body) \<or> jb_categories body = None \<or> userId = []")
  case True
  from postJob_guard[OF True, of jobSchema newId d] assms show ?thesis
    by (auto simp: respond_def)
next
  case False
  then have f: "truthy (jb_title body)" "truthy (jb_description body)" "present (jb_company body)"
    "truthy (jb_experience body)" "truthy (jb_location body)" "truthy (jb_jobOpenings body)"
    "truthy (jb_jobType body)" "jb_categories body \<noteq> None" "userId \<noteq> []"
    by simp_all
  note e = assms(1)[unfolded postJob_past_guard[OF f]]
  show ?thesis
    using e assms(2)
    by (simp split: option.splits if_splits prod.splits add: respond_def, auto simp: respond_def)
qed

text \<open>
  The identifiers of the job categories stay distinct: \<open>postJob\<close> keeps the
  identifiers of the collection as they are, as \<open>deleteJob\<close> does, and the two
  handlers of the categories above insert under a free identifier and remove.
\<close>

lemma postJob_category_ids:
  "map category_id (jobCategories (snd (postJob jobSchema newId d userId body)))
     = map category_id (jobCategories d)"
proof (cases "\<not> truthy (jb_title body) \<or> \<not> truthy (jb_description body)
         \<or> \<not> present (jb_company body) \<or> \<not> truthy (jb_experience body)
         \<or> \<not> truthy (jb_location body) \<or> \<not> truthy (jb_jobOpenings body)
         \<or> \<not> truthy (jb_jobType body) \<or> jb_categories body = None \<or> userId = []")
  case True
  from postJob_guard[OF True, of jobSchema newId d] show ?thesis by simp
next
  case False
  then have f: "truthy (jb_title body)" "truthy (jb_description body)" "present (jb_company body)"
    "truthy (jb_experience body)" "truthy (jb_location body)" "truthy (jb_jobOpenings body)"
    "truthy (jb_jobType body)" "jb_categories body \<noteq> None" "userId \<noteq> []"
    by simp_all
  show ?thesis
    unfolding postJob_past_guard[OF f]
    by (simp split: option.splits prod.splits add: map_id_updateMany)
qed

lemma postJob_uniqueIds:
  "uniqueIds category_id (jobCategories d)
     \<Longrightarrow> uniqueIds category_id (jobCategories (snd (postJob jobSchema newId d userId body)))"
  by (simp add: uniqueIds_def postJob_category_ids)

text \<open>
  A posting whose \<open>categories\<close> name an identifier that resolves to no job category
  never persists a job: in a store whose job categories have distinct identifiers it
  fails and leaves the store as it is, and when the company identifier and all
  category identifiers are well-formed the answer is 400.
\<close>

lemma postJob_unresolved_category:
  assumes "uniqueIds category_id (jobCategories d)"
    and "jb_categories body = Some cs" and "s \<in> set cs"
    and "\<forall>k. castObjectId s = Some k \<longrightarrow> k \<notin> category_id ` set (jobCategories d)"
  shows "snd (postJob jobSchema newId d userId body) = d
         \<and> \<not> success (fst (postJob jobSchema newId d userId body))
         \<and> (validHexString (strOf (jb_company body)) \<and> (\<forall>x\<in>set cs. validHexString x)
             \<longrightarrow> status (fst (postJob jobSchema newId d userId body)) = 400)"
proof -
  have count: "length (findMany (\<lambda>c. category_id c \<in> set cids) (jobCategories d)) \<noteq> length cs"
    if c: "castObjectIds cs = Some cids" for cids
  proof
    assume e: "length (findMany (\<lambda>c. category_id c \<in> set cids) (jobCategories d)) = length cs"
    have "length cids = length cs" using c by (rule castObjectIds_length)
    with e have "set cids \<subseteq> category_id ` set (jobCategories d)"
      using findMany_count_all[OF assms(1), of cids] by simp
    moreover have "castObjectId s = Some (toLowerCase s)" "toLowerCase s \<in> set cids"
      using castObjectIds_member[OF c assms(3)] by auto
    ultimately show False using assms(4) by auto
  qed
  have inv: "castObjectIds cs = None \<Longrightarrow> \<not> (\<forall>x\<in>set cs. validHexString x)"
    using castObjectIds_None by blast
  show ?thesis
    using assms(2) count inv
    by (auto simp: postJob_def respond_def castObjectId_def Let_def
             split: option.splits if_splits)
qed

text \<open>
  C1. The claim: every posting in which an identifier of \<open>categories\<close> resolves to no
  job category fails with BadRequest and persists no job. \<open>postJob\<close> answers 400 under
  its comments \<open>Validate company ID\<close> and \<open>Validate categories\<close>, but it hands the
  identifiers to the queries without the test \<open>ObjectId.isValid\<close> with which
  \<open>updateJob\<close>, \<open>jobById\<close> and \<open>deleteJob\<close> answer 400 for a malformed identifier.
  A category identifier that is not a well-formed ObjectId resolves to no category, the
  query that casts it throws, and the posting is answered 500 (Internal Server Error);
  so is a posting with a well-formed category identifier of no category and a malformed
  company identifier. \<open>deleteJob\<close> answers 400 for the same malformed string.
\<close>

theorem postJob_malformed_id_internal_error:
  "fst (postJob jobSchemaAny idNew exampleDb idUser
          (anvilBody\<lparr>jb_categories := Some [idEng, ''engineering'']\<rparr>))
     = respond 500 False ''Internal Server Error. Please try again later.'' None
   \<and> fst (postJob jobSchemaAny idNew exampleDb idUser
          (anvilBody\<lparr>jb_company := Some ''acme'', jb_categories := Some [idEng, idGone]\<rparr>))
     = respond 500 False ''Internal Server Error. Please try again later.'' None
   \<and> fst (deleteJob exampleDb ''engineering'') = respond 400 False ''Invalid Job ID'' None"
  by code_simp

theorem postJob_malformed_id_internal_error_witness:
  "truthy (jb_title anvilBody) \<and> truthy (jb_description anvilBody)
   \<and> present (jb_company anvilBody) \<and> truthy (jb_experience anvilBody)
   \<and> truthy (jb_location anvilBody) \<and> truthy (jb_jobOpenings anvilBody)
   \<and> truthy (jb_jobType anvilBody) \<and> idUser \<noteq> []
   \<and> \<not> validHexString ''engineering'' \<and> \<not> validHexString ''acme''
   \<and> status (fst (postJob jobSchemaAny idNew exampleDb idUser
                    (anvilBody\<lparr>jb_categories := Some [idEng, ''engineering'']\<rparr>))) = 500
   \<and> status (fst (postJob jobSchemaAny idNew exampleDb idUser
                    (anvilBody\<lparr>jb_company := Some ''acme'',
                               jb_categories := Some [idEng, idGone]\<rparr>))) = 500
   \<and> status (fst (deleteJob exampleDb ''engineering'')) = 400"
proof -
  have g: "truthy (jb_title anvilBody)" "truthy (jb_description anvilBody)"
    "present (jb_company anvilBody)" "truthy (jb_experience anvilBody)"
    "truthy (jb_location anvilBody)" "truthy (jb_jobOpenings anvilBody)"
    "truthy (jb_jobType anvilBody)" "idUser \<noteq> []"
    by (simp_all add: anvilBody_def example_defs)
  have v: "\<not> validHexString ''engineering''" "\<not> validHexString ''acme''"
    by (simp_all add: validHexString_def)
  show ?thesis
    using postJob_malformed_id_internal_error g v by (simp add: respond_def)
qed

text \<open>
  C3. In a store whose job categories have distinct identifiers, after every
  successful posting (answer 201) the identifier of the new job is in the \<open>jobs\<close>
  list of the company the posting refers to and in the \<open>jobs\<close> list of a stored
  category for every identifier the posting names in \<open>categories\<close>.
\<close>

theorem postJob_links:
  assumes "uniqueIds category_id (jobCategories d)"
    and "postJob jobSchema newId d userId body = (r, d')" and "status r = 201"
  shows "\<exists>cid newJob. payload r = Some newJob \<and> job_id newJob = newId \<and> newJob \<in> set (jobs d')
           \<and> castObjectId (strOf (jb_company body)) = Some cid \<and> job_company newJob = cid
           \<and> (\<exists>c\<in>set (companies d'). company_id c = cid \<and> newId \<in> set (company_jobs c))
           \<and> (\<forall>s\<in>set (listOf (jb_categories body)).
                 \<exists>k. castObjectId s = Some k \<and> k \<in> set (job_categories newJob)
                   \<and> (\<exists>c\<in>set (jobCategories d'). category_id c = k \<and> newId \<in> set (category_jobs c)))"
proof -
  let ?cs = "listOf (jb_categories body)"
  from postJob_created[OF assms(2,3)] obtain cid validCompany cids newJob js where
    c: "castObjectId (strOf (jb_company body)) = Some cid"
    and f: "findById company_id cid (companies d) = Some validCompany"
    and k: "castObjectIds ?cs = Some cids"
    and n: "length (findMany (\<lambda>c. category_id c \<in> set cids) (jobCategories d)) = length ?cs"
    and j: "Job_create jobSchema newId cid cids userId body (jobs d) = Some (newJob, js)"
    and r: "r = respond 201 True ''Job created successfully'' (Some newJob)"
    and d': "d' = d\<lparr>jobs := js,
               jobCategories :=
                 updateMany (\<lambda>c. category_id c \<in> set cids)
                   (\<lambda>c. c\<lparr>category_jobs := push (job_id newJob) (category_jobs c)\<rparr>)
                   (jobCategories d),
               companies :=
                 updateOne (\<lambda>c. company_id c = cid)
                   (\<lambda>c. c\<lparr>company_jobs := push (job_id newJob) (company_jobs c)\<rparr>)
                   (companies d)\<rparr>"
    by blast
  from j have nj: "job_id newJob = newId" "job_company newJob = cid" "job_categories newJob = cids"
    "newJob \<in> set js"
    by (auto simp: Job_create_def insertDoc_def Let_def split: option.splits if_splits)
  from findById_Some[OF f] have vc: "validCompany \<in> set (companies d)" "company_id validCompany = cid"
    by auto
  from updateOne_member[OF vc(1), of "\<lambda>c. company_id c = cid"
      "\<lambda>c. c\<lparr>company_jobs := push newId (company_jobs c)\<rparr>"] vc(2)
  obtain y where y: "company_id y = cid"
    "y\<lparr>company_jobs := push newId (company_jobs y)\<rparr>
       \<in> set (updateOne (\<lambda>c. company_id c = cid)
                (\<lambda>c. c\<lparr>company_jobs := push newId (company_jobs c)\<rparr>) (companies d))"
    by auto
  have comp: "\<exists>c\<in>set (companies d'). company_id c = cid \<and> newId \<in> set (company_jobs c)"
    using y by (auto simp: d' nj push_def intro!: bexI[of _ "y\<lparr>company_jobs := push newId (company_jobs y)\<rparr>"])
  have "length cids = length ?cs" using k by (rule castObjectIds_length)
  with n have sub: "set cids \<subseteq> category_id ` set (jobCategories d)"
    using findMany_count_all[OF assms(1), of cids] by simp
  have cats: "\<exists>k. castObjectId s = Some k \<and> k \<in> set (job_categories newJob)
                   \<and> (\<exists>c\<in>set (jobCategories d'). category_id c = k \<and> newId \<in> set (category_jobs c))"
    if s: "s \<in> set ?cs" for s
  proof -
    from castObjectIds_member[OF k s]
    have cs: "castObjectId s = Some (toLowerCase s)" "toLowerCase s \<in> set cids" by auto
    with sub obtain c where c: "c \<in> set (jobCategories d)" "category_id c = toLowerCase s" by auto
    have "c\<lparr>category_jobs := push newId (category_jobs c)\<rparr> \<in> set (jobCategories d')"
      using c cs by (auto simp: d' nj updateMany_def intro!: image_eqI[of _ _ c])
    then show ?thesis using c cs nj
      by (auto simp: push_def intro!: bexI[of _ "c\<lparr>category_jobs := push newId (category_jobs c)\<rparr>"])
  qed
  show ?thesis using r nj c comp cats by (auto simp: respond_def d')
qed

theorem postJob_links_witness:
  "uniqueIds category_id (jobCategories exampleDb)
   \<and> status (fst (postJob jobSchemaAny idNew exampleDb idUser anvilBody)) = 201
   \<and> map company_jobs (companies (snd (postJob jobSchemaAny idNew exampleDb idUser anvilBody)))
       = [[idJob, idNew]]
   \<and> map category_jobs (jobCategories (snd (postJob jobSchemaAny idNew exampleDb idUser anvilBody)))
       = [[idJob, idNew]]
   \<and> map job_id (jobs (snd (postJob jobSchemaAny idNew exampleDb idUser anvilBody))) = [idJob, idNew]"
proof -
  have u: "uniqueIds category_id (jobCategories exampleDb)"
    by (simp add: uniqueIds_def exampleDb_def)
  obtain r d' where rd: "postJob jobSchemaAny idNew exampleDb idUser anvilBody = (r, d')"
    by (cases "postJob jobSchemaAny idNew exampleDb idUser anvilBody")
  have s: "status (fst (postJob jobSchemaAny idNew exampleDb idUser anvilBody)) = 201"
    by code_simp
  then have s': "status r = 201" using rd by simp
  have e: "map company_jobs (companies (snd (postJob jobSchemaAny idNew exampleDb idUser anvilBody)))
       = [[idJob, idNew]]"
    "map category_jobs (jobCategories (snd (postJob jobSchemaAny idNew exampleDb idUser anvilBody)))
       = [[idJob, idNew]]"
    "map job_id (jobs (snd (postJob jobSchemaAny idNew exampleDb idUser anvilBody))) = [idJob, idNew]"
    by code_simp+
  show ?thesis
    using postJob_links[OF u rd s'] u s e by simp
qed

text \<open>
  C6, as amended. Every posting in which one of \<open>title\<close>, \<open>description\<close>,
  \<open>company\<close>, \<open>location\<close>, \<open>experience\<close>, \<open>jobOpenings\<close>, \<open>jobType\<close> is missing
  or falsy (the empty string, zero, \<open>false\<close>, \<open>null\<close>), or in which \<open>categories\<close> is
  missing, or whose caller has no identifier, is answered 400 (BadRequest) and creates
  no job. The handler does not test \<open>salary\<close> and \<open>requirements\<close>, and an empty
  \<open>categories\<close> array passes its test.
\<close>

theorem postJob_required_fields:
  assumes "\<not> truthy (jb_title body) \<or> \<not> truthy (jb_description body) \<or> \<not> present (jb_company body)
           \<or> \<not> truthy (jb_location body) \<or> \<not> truthy (jb_experience body)
           \<or> \<not> truthy (jb_jobOpenings body) \<or> \<not> truthy (jb_jobType body)
           \<or> jb_categories body = None \<or> userId = []"
  shows "postJob jobSchema newId d userId body
           = (respond 400 False ''All required fields must be provided'' None, d)
         \<and> jobs (snd (postJob jobSchema newId d userId body)) = jobs d"
proof -
  have "postJob jobSchema newId d userId body
           = (respond 400 False ''All required fields must be provided'' None, d)"
    using assms by (intro postJob_guard) blast
  then show ?thesis by simp
qed

theorem postJob_required_fields_witness:
  "\<not> truthy (jb_title (anvilBody\<lparr>jb_title := JStr []\<rparr>))
   \<and> postJob jobSchemaAny idNew exampleDb idUser (anvilBody\<lparr>jb_title := JStr []\<rparr>)
       = (respond 400 False ''All required fields must be provided'' None, exampleDb)
   \<and> jb_categories (anvilBody\<lparr>jb_categories := None\<rparr>) = None
   \<and> postJob jobSchemaAny idNew exampleDb idUser (anvilBody\<lparr>jb_categories := None\<rparr>)
       = (respond 400 False ''All required fields must be provided'' None, exampleDb)"
  using postJob_required_fields[of "anvilBody\<lparr>jb_title := JStr []\<rparr>" idUser jobSchemaAny idNew exampleDb]
    postJob_required_fields[of "anvilBody\<lparr>jb_categories := None\<rparr>" idUser jobSchemaAny idNew exampleDb]
  by simp

text \<open>
  The claim as it was stated lists \<open>salary\<close>, \<open>requirements\<close> and an empty list of
  categories among the causes of a BadRequest. A posting without salary and
  requirements is created under a schema that accepts it and is answered 500 under a
  schema that requires them; a posting with an empty list of categories is created.
\<close>

theorem postJob_unchecked_fields_counterexample:
  "status (fst (postJob jobSchemaAny idNew exampleDb idUser
                  (anvilBody\<lparr>jb_salary := JUndefined, jb_requirements := JUndefined\<rparr>))) = 201
   \<and> map job_id (jobs (snd (postJob jobSchemaAny idNew exampleDb idUser
                  (anvilBody\<lparr>jb_salary := JUndefined, jb_requirements := JUndefined\<rparr>)))) = [idJob, idNew]
   \<and> status (fst (postJob jobSchemaStrict idNew exampleDb idUser
                  (anvilBody\<lparr>jb_salary := JUndefined, jb_requirements := JUndefined\<rparr>))) = 500
   \<and> status (fst (postJob jobSchemaAny idNew exampleDb idUser
                  (anvilBody\<lparr>jb_categories := Some []\<rparr>))) = 201"
  by code_simp

section \<open>Registering a user\<close>

text \<open>
  C7, as amended. Every registration whose email equals, letter case aside, the email
  of a stored user (stored, as the schema stores every email, lower-cased and trimmed)
  fails with status 400 and leaves the store as it is: no user is persisted. When the
  registration gives all of \<open>name\<close>, \<open>email\<close>, \<open>phone\<close>, \<open>password\<close> and \<open>role\<close>, the
  answer is the message that a user with this email already exists (Conflict);
  otherwise it is the validation failure that all fields are required, because the
  handler tests the required properties before it looks the email up.
\<close>

theorem createUser_duplicate_email:
  assumes "u \<in> set (users d)"
    and "toLowerCase (strOf (ub_email body)) = toLowerCase (user_email u)"
    and "user_email u = emailSetters (user_email u)"
  shows "snd (createUser sv newId d body file) = d
         \<and> status (fst (createUser sv newId d body file)) = 400
         \<and> \<not> success (fst (createUser sv newId d body file))
         \<and> (present (ub_name body) \<and> present (ub_email body) \<and> present (ub_phone body)
              \<and> present (ub_password body) \<and> present (ub_role body)
             \<longrightarrow> fst (createUser sv newId d body file)
                   = respond 400 False ''User with this email already exists'' None)
         \<and> (\<not> (present (ub_name body) \<and> present (ub_email body) \<and> present (ub_phone body)
                 \<and> present (ub_password body) \<and> present (ub_role body))
             \<longrightarrow> fst (createUser sv newId d body file)
                   = respond 400 False ''All fields are required'' None)"
proof (cases "present (ub_name body) \<and> present (ub_email body) \<and> present (ub_phone body)
              \<and> present (ub_password body) \<and> present (ub_role body)")
  case True
  have "emailSetters (strOf (ub_email body)) = user_email u"
    using assms(2,3) by (simp add: emailSetters_def)
  then have "findOne (\<lambda>x. user_email x = emailSetters (strOf (ub_email body))) (users d) \<noteq> None"
    using assms(1) by (auto simp: findOne_None)
  then have "createUser sv newId d body file
           = (respond 400 False ''User with this email already exists'' None, d)"
    using True by (auto simp: createUser_def)
  then show ?thesis using True by (simp add: respond_def)
next
  case False
  then have "createUser sv newId d body file
           = (respond 400 False ''All fields are required'' None, d)"
    by (auto simp: createUser_def)
  then show ?thesis using False by (simp add: respond_def)
qed

theorem createUser_duplicate_email_witness:
  "alice \<in> set (users exampleDb)
   \<and> toLowerCase (strOf (ub_email aliceAgain)) = toLowerCase (user_email alice)
   \<and> user_email alice = emailSetters (user_email alice)
   \<and> present (ub_name aliceAgain) \<and> present (ub_email aliceAgain) \<and> present (ub_phone aliceAgain)
   \<and> present (ub_password aliceAgain) \<and> present (ub_role aliceAgain)
   \<and> createUser exampleServices idNew exampleDb aliceAgain None
       = (respond 400 False ''User with this email already exists'' None, exampleDb)
   \<and> \<not> present (ub_name (aliceAgain\<lparr>ub_name := None\<rparr>))
   \<and> createUser exampleServices idNew exampleDb (aliceAgain\<lparr>ub_name := None\<rparr>) None
       = (respond 400 False ''All fields are required'' None, exampleDb)"
proof -
  have p: "present (ub_name aliceAgain)" "present (ub_email aliceAgain)" "present (ub_phone aliceAgain)"
    "present (ub_password aliceAgain)" "present (ub_role aliceAgain)"
    by (simp_all add: aliceAgain_def)
  have m: "alice \<in> set (users exampleDb)" by (simp add: exampleDb_def)
  have l: "toLowerCase (strOf (ub_email aliceAgain)) = toLowerCase (user_email alice)" by code_simp
  have l': "toLowerCase (strOf (ub_email (aliceAgain\<lparr>ub_name := None\<rparr>))) = toLowerCase (user_email alice)"
    using l by simp
  have n: "user_email alice = emailSetters (user_email alice)" by code_simp
  show ?thesis
    using createUser_duplicate_email[OF m l n, of exampleServices idNew None]
      createUser_duplicate_email[OF m l' n, of exampleServices idNew None] p m l n
    by (simp add: prod_eq_iff)
qed

text \<open>
  The claim as it was stated promises Conflict for every registration with a taken
  email. The test of the required properties comes first: without a \<open>name\<close> the
  registration is answered with the validation failure, whatever its email.
\<close>

theorem createUser_missing_name_counterexample:
  "fst (createUser exampleServices idNew exampleDb (aliceAgain\<lparr>ub_name := None\<rparr>) None)
     = respond 400 False ''All fields are required'' None
   \<and> fst (createUser exampleServices idNew exampleDb (aliceAgain\<lparr>ub_name := None\<rparr>) None)
     \<noteq> respond 400 False ''User with this email already exists'' None"
  by code_simp

end
